theory Spec2Isabelle
  imports Complex_Main
begin

section \<open>Data model of \<open>CameraView.tsx\<close>\<close>

text \<open>
  \<^verbatim>\<open>interface CapturedImage { id: string; url: string; selected: boolean; }\<close>
  The field \<open>id\<close> is written \<open>id_img\<close>, since \<open>id\<close> is the identity function of HOL.
  The \<open>url\<close> is the data URL that holds the pixels (the spec's buffer).
\<close>

record CapturedImage =
  id_img :: string
  url :: string
  selected :: bool

datatype view_mode = camera | review

text \<open>A \<open>MediaStream\<close> handed out by \<open>getUserMedia\<close> is known by a handle.\<close>

type_synonym media_stream = nat

text \<open>
  The \<open>useState\<close> cells of the component \<open>CameraView\<close>, in the order of the source.
\<close>

record camera_view =
  stream :: "media_stream option"
  capturedImages :: "CapturedImage list"
  isAnalyzing :: bool
  error :: "string option"
  viewMode :: view_mode
  cropTarget :: "CapturedImage option"

text \<open>
  The error kinds the specification names for the store and the crop. A handler returns the
  next state together with the error it signalled to the operator (an \<open>alert\<close> or a
  \<open>throw\<close>), \<open>None\<close> when the source does neither.
\<close>

datatype error_kind = SelectionTooSmall | NotFound

type_synonym 's handler = "'s \<Rightarrow> 's \<times> error_kind option"

section \<open>The image store: the updates of \<open>capturedImages\<close>\<close>

text \<open>
  \<^verbatim>\<open>setCapturedImages(prev => [...prev,
     { id: Date.now().toString() + Math.random().toString(), url: dataUrl, selected: true }])\<close>
  inside \<^verbatim>\<open>if (videoRef.current && canvasRef.current) { ... if (ctx) { ... } }\<close>.
  What the browser supplies at the call is a \<open>capture_env\<close>: whether both refs are
  mounted, whether the canvas gave a 2d context, the strings \<open>Date.now().toString()\<close> and
  \<open>Math.random().toString()\<close>, and the data URL of the frame drawn.
\<close>

record capture_env =
  refsMounted :: bool
  ctxAvailable :: bool
  nowString :: string
  randomString :: string
  dataUrl :: string

definition newImage :: "capture_env \<Rightarrow> CapturedImage" where
  "newImage e = \<lparr>id_img = nowString e @ randomString e, url = dataUrl e, selected = True\<rparr>"

definition capturePhoto :: "capture_env \<Rightarrow> camera_view handler" where
  "capturePhoto e st =
     (if refsMounted e \<and> ctxAvailable e
      then (st\<lparr>capturedImages := capturedImages st @ [newImage e]\<rparr>, None)
      else (st, None))"

text \<open>
  \<^verbatim>\<open>setCapturedImages(prev => prev.map(img =>
       img.id === id ? { ...img, selected: !img.selected } : img))\<close>
\<close>

definition toggleImageSelection :: "string \<Rightarrow> camera_view handler" where
  "toggleImageSelection i st =
     (st\<lparr>capturedImages :=
          map (\<lambda>img. if id_img img = i then img\<lparr>selected := \<not> selected img\<rparr> else img)
            (capturedImages st)\<rparr>, None)"

text \<open>
  \<^verbatim>\<open>if (window.confirm("Delete this image?"))
       setCapturedImages(prev => prev.filter(img => img.id !== id))\<close>
  The answer of the operator to \<open>window.confirm\<close> is the argument \<open>confirmed\<close>.
\<close>

definition deleteImage :: "string \<Rightarrow> bool \<Rightarrow> camera_view handler" where
  "deleteImage i confirmed st =
     (if confirmed
      then (st\<lparr>capturedImages := filter (\<lambda>img. id_img img \<noteq> i) (capturedImages st)\<rparr>, None)
      else (st, None))"

text \<open>
  \<^verbatim>\<open>if (window.confirm("Delete all selected images?"))
       setCapturedImages(prev => prev.filter(img => !img.selected))\<close>
\<close>

definition deleteSelectedImages :: "bool \<Rightarrow> camera_view handler" where
  "deleteSelectedImages confirmed st =
     (if confirmed
      then (st\<lparr>capturedImages := filter (\<lambda>img. \<not> selected img) (capturedImages st)\<rparr>, None)
      else (st, None))"

text \<open>
  \<^verbatim>\<open>setCapturedImages(prev => prev.map(img => ({ ...img, selected: select })))\<close>
\<close>

definition selectAll :: "bool \<Rightarrow> camera_view handler" where
  "selectAll select st =
     (st\<lparr>capturedImages := map (\<lambda>img. img\<lparr>selected := select\<rparr>) (capturedImages st)\<rparr>, None)"

text \<open>
  \<^verbatim>\<open>setCapturedImages(prev => prev.map(img =>
       img.id === id ? { ...img, url: newUrl } : img));
     setCropTarget(null);\<close>
\<close>

definition handleCropConfirm :: "string \<Rightarrow> string \<Rightarrow> camera_view handler" where
  "handleCropConfirm i newUrl st =
     (st\<lparr>capturedImages :=
          map (\<lambda>img. if id_img img = i then img\<lparr>url := newUrl\<rparr> else img) (capturedImages st),
        cropTarget := None\<rparr>, None)"

text \<open>Two handlers in a row: the second runs on the state the first left.\<close>

definition andThen :: "'s handler \<Rightarrow> 's handler \<Rightarrow> 's \<Rightarrow> 's" where
  "andThen f g st = fst (g (fst (f st)))"

text \<open>The initial values of the \<open>useState\<close> cells.\<close>

definition initial :: camera_view where
  "initial = \<lparr>stream = None, capturedImages = [], isAnalyzing = False, error = None,
     viewMode = camera, cropTarget = None\<rparr>"

text \<open>
  Two states that differ in \<open>selected\<close> flags at most: the same entries by id and by
  buffer, in the same order, and the same values in every other cell.
\<close>

definition sameButFlags :: "camera_view \<Rightarrow> camera_view \<Rightarrow> bool" where
  "sameButFlags a b \<longleftrightarrow>
     length (capturedImages a) = length (capturedImages b) \<and>
     map id_img (capturedImages a) = map id_img (capturedImages b) \<and>
     map url (capturedImages a) = map url (capturedImages b) \<and>
     a\<lparr>capturedImages := capturedImages b\<rparr> = b"

text \<open>The ids held by the store.\<close>

definition ids :: "camera_view \<Rightarrow> string set" where
  "ids st = id_img ` set (capturedImages st)"

text \<open>Example stores for closed statements: two captured frames, the second deselected.\<close>

definition imgA :: CapturedImage where
  "imgA = \<lparr>id_img = ''17000000000000.25'', url = ''data:a'', selected = True\<rparr>"

definition imgB :: CapturedImage where
  "imgB = \<lparr>id_img = ''17000000000050.75'', url = ''data:b'', selected = False\<rparr>"

definition storeAB :: camera_view where
  "storeAB = initial\<lparr>capturedImages := [imgA, imgB], viewMode := review\<rparr>"

section \<open>Sequences of captures and deletions\<close>

text \<open>
  An operation on the store is a call of \<open>capturePhoto\<close>, with what the browser supplied,
  or a call of \<open>deleteImage\<close>, with the id and the answer to the confirmation dialog.
\<close>

datatype store_op = Capture capture_env | Delete string bool

fun step :: "store_op \<Rightarrow> camera_view \<Rightarrow> camera_view" where
  "step (Capture e) st = fst (capturePhoto e st)"
| "step (Delete i confirmed) st = fst (deleteImage i confirmed st)"

fun run :: "store_op list \<Rightarrow> camera_view \<Rightarrow> camera_view" where
  "run [] st = st"
| "run (opn # ops) st = run ops (step opn st)"

text \<open>
  In the words of the specification: the entry an operation adds, the ids a sequence of
  operations removes, and the entries that survive a sequence, which are the added entries
  that no later operation removes, in the order of their insertion.
\<close>

fun added :: "store_op \<Rightarrow> CapturedImage option" where
  "added (Capture e) = (if refsMounted e \<and> ctxAvailable e then Some (newImage e) else None)"
| "added (Delete i confirmed) = None"

fun removedIds :: "store_op list \<Rightarrow> string set" where
  "removedIds [] = {}"
| "removedIds (Capture e # ops) = removedIds ops"
| "removedIds (Delete i confirmed # ops) =
     (if confirmed then insert i (removedIds ops) else removedIds ops)"

fun survivors :: "store_op list \<Rightarrow> CapturedImage list" where
  "survivors [] = []"
| "survivors (opn # ops) =
     (case added opn of
        None \<Rightarrow> survivors ops
      | Some img \<Rightarrow> if id_img img \<in> removedIds ops then survivors ops else img # survivors ops)"

text \<open>
  Every capture of the sequence that adds an entry draws an id that no entry of the store
  holds at that moment.
\<close>

fun freshIds :: "store_op list \<Rightarrow> camera_view \<Rightarrow> bool" where
  "freshIds [] st = True"
| "freshIds (opn # ops) st =
     ((case added opn of None \<Rightarrow> True | Some img \<Rightarrow> id_img img \<notin> ids st) \<and>
      freshIds ops (step opn st))"

text \<open>
  Example captures: \<open>Date.now()\<close> gave 1700000000000 both times; \<open>Math.random()\<close> gave
  0.25 for \<open>shot1\<close> and \<open>shot1again\<close>, and 0.75 for \<open>shot2\<close>.
\<close>

definition shot1 :: capture_env where
  "shot1 = \<lparr>refsMounted = True, ctxAvailable = True, nowString = ''1700000000000'',
     randomString = ''0.25'', dataUrl = ''data:a''\<rparr>"

definition shot1again :: capture_env where
  "shot1again = shot1\<lparr>dataUrl := ''data:b''\<rparr>"

definition shot2 :: capture_env where
  "shot2 = shot1\<lparr>randomString := ''0.75'', dataUrl := ''data:c''\<rparr>"

section \<open>Batch analysis\<close>

text \<open>
  \<^verbatim>\<open>const imagesToProcess = analyzeAll ? capturedImages
                                         : capturedImages.filter(img => img.selected);\<close>
\<close>

definition imagesToProcess :: "bool \<Rightarrow> camera_view \<Rightarrow> CapturedImage list" where
  "imagesToProcess analyzeAll st =
     (if analyzeAll then capturedImages st else filter selected (capturedImages st))"

text \<open>
  \<open>analyzeImageWithPi\<close> lives in \<open>services/piService\<close>, outside the component; it is a
  parameter here. It returns a promise, which settles as fulfilled with a result (\<open>Inr\<close>) or
  as rejected with a reason (\<open>Inl\<close>); \<open>analyze k u\<close> is how the \<open>k\<close>-th call of the batch,
  on the data URL \<open>u\<close>, settles.

  \<open>Promise.all\<close> fulfils with the values in the order of the promises when every promise
  fulfils, and rejects as soon as one rejects. Which reason it rejects with depends on timing;
  the \<open>catch\<close> of \<open>handleBatchAnalyze\<close> does not look at it.
\<close>

fun promiseAll :: "('e + 'r) list \<Rightarrow> 'r list option" where
  "promiseAll [] = Some []"
| "promiseAll (Inl e # ps) = None"
| "promiseAll (Inr r # ps) = (case promiseAll ps of None \<Rightarrow> None | Some rs \<Rightarrow> Some (r # rs))"

text \<open>
  What a call of \<open>handleBatchAnalyze\<close> does besides updating the state: the data URLs it
  passed to \<open>analyzeImageWithPi\<close>, in call order, and the argument it passed to
  \<open>onAnalysisComplete\<close>, when it called it.
\<close>

record 'r dispatch_effect =
  invoked :: "string list"
  completed :: "'r list option"

text \<open>
  \<^verbatim>\<open>if (imagesToProcess.length === 0) return;
     setIsAnalyzing(true);
     try {
       const promises = imagesToProcess.map(img => analyzeImageWithPi(img.url));
       const results = await Promise.all(promises);
       onAnalysisComplete(results);
     } catch (err) {
       setError("Connection to Raspberry Pi failed during batch analysis.");
       setIsAnalyzing(false);
     }\<close>
\<close>

definition handleBatchAnalyze ::
  "(nat \<Rightarrow> string \<Rightarrow> 'e + 'r) \<Rightarrow> bool \<Rightarrow> camera_view \<Rightarrow> camera_view \<times> 'r dispatch_effect" where
  "handleBatchAnalyze analyze analyzeAll st =
     (let imgs = imagesToProcess analyzeAll st in
      if length imgs = 0 then (st, \<lparr>invoked = [], completed = None\<rparr>)
      else
        let st1 = st\<lparr>isAnalyzing := True\<rparr>;
            promises = map (\<lambda>(k, img). analyze k (url img)) (enumerate 0 imgs)
        in
        case promiseAll promises of
          Some results \<Rightarrow> (st1, \<lparr>invoked = map url imgs, completed = Some results\<rparr>)
        | None \<Rightarrow>
            (st1\<lparr>error := Some ''Connection to Raspberry Pi failed during batch analysis.'',
                 isAnalyzing := False\<rparr>,
             \<lparr>invoked = map url imgs, completed = None\<rparr>))"

text \<open>
  Example analyses: \<open>analyzeFailsSecond\<close> fulfils the first call of a batch and rejects
  every later one; \<open>analyzeOk\<close> fulfils every call with a result naming the data URL.
\<close>

definition analyzeFailsSecond :: "nat \<Rightarrow> string \<Rightarrow> string + string" where
  "analyzeFailsSecond k u = (if k = 0 then Inr (''E. coli in '' @ u) else Inl ''timeout'')"

definition analyzeOk :: "nat \<Rightarrow> string \<Rightarrow> string + string" where
  "analyzeOk k u = Inr (''E. coli in '' @ u)"

section \<open>The crop dialog \<open>CropModal\<close>\<close>

text \<open>
  A JavaScript number is an IEEE 754 double: a finite value, one of the two infinities, or
  \<open>NaN\<close>. A finite double is kept as the real number it stands for (the two zeros are
  one). The result of an arithmetic operation is the exact result rounded to a double; the
  rounding belongs to the JavaScript engine, not to the component, and is the parameter
  \<open>rnd\<close> of the operations below. \<open>round64\<close>, further down, is that rounding.
\<close>

datatype jsnum = Fin real | PosInf | NegInf | NaN

type_synonym rounding = "real \<Rightarrow> jsnum"

text \<open>
  \<open>naturalWidth / clientWidth\<close>: both operands are lengths in whole pixels
  (\<open>unsigned long\<close> in the DOM), which are doubles as they are. \<open>0 / 0\<close> is \<open>NaN\<close>;
  \<open>n / 0\<close> is \<open>+Infinity\<close> for \<open>0 < n\<close>.
\<close>

definition js_div :: "rounding \<Rightarrow> nat \<Rightarrow> nat \<Rightarrow> jsnum" where
  "js_div rnd n d =
     (if d = 0 then (if n = 0 then NaN else PosInf) else rnd (real n / real d))"

text \<open>\<open>a - b\<close> for finite \<open>a\<close> and \<open>b\<close>.\<close>

definition js_sub :: "rounding \<Rightarrow> real \<Rightarrow> real \<Rightarrow> jsnum" where
  "js_sub rnd a b = rnd (a - b)"

text \<open>\<open>Math.abs\<close>.\<close>

fun js_abs :: "jsnum \<Rightarrow> jsnum" where
  "js_abs (Fin a) = Fin \<bar>a\<bar>"
| "js_abs PosInf = PosInf"
| "js_abs NegInf = PosInf"
| "js_abs NaN = NaN"

text \<open>
  The infinity with the sign of \<open>s\<close>, which is what a product of an infinity and a finite
  number of that sign is; \<open>0 * Infinity\<close> is \<open>NaN\<close>.
\<close>

definition signedInf :: "real \<Rightarrow> jsnum" where
  "signedInf s = (if s = 0 then NaN else if 0 < s then PosInf else NegInf)"

text \<open>\<open>a * b\<close>.\<close>

fun js_mult :: "rounding \<Rightarrow> jsnum \<Rightarrow> jsnum \<Rightarrow> jsnum" where
  "js_mult rnd NaN b = NaN"
| "js_mult rnd a NaN = NaN"
| "js_mult rnd (Fin a) (Fin b) = rnd (a * b)"
| "js_mult rnd (Fin a) PosInf = signedInf a"
| "js_mult rnd (Fin a) NegInf = signedInf (- a)"
| "js_mult rnd PosInf (Fin b) = signedInf b"
| "js_mult rnd NegInf (Fin b) = signedInf (- b)"
| "js_mult rnd PosInf PosInf = PosInf"
| "js_mult rnd PosInf NegInf = NegInf"
| "js_mult rnd NegInf PosInf = NegInf"
| "js_mult rnd NegInf NegInf = PosInf"

text \<open>\<open>v < c\<close> for a finite \<open>c\<close>: every comparison with \<open>NaN\<close> is false.\<close>

fun js_less :: "jsnum \<Rightarrow> real \<Rightarrow> bool" where
  "js_less (Fin a) c = (a < c)"
| "js_less PosInf c = False"
| "js_less NegInf c = True"
| "js_less NaN c = False"

text \<open>
  The state of the dialog: \<^verbatim>\<open>useState({ x: 0, y: 0 })\<close> twice and \<^verbatim>\<open>useState(false)\<close>.
  Mouse positions are finite doubles.
\<close>

record point =
  pos_x :: real
  pos_y :: real

record crop_modal =
  startPos :: point
  currentPos :: point
  isDrawing :: bool

text \<open>
  The image element behind \<open>imgRef\<close>: its \<open>naturalWidth\<close> and its rendered \<open>width\<close>,
  which the source calls \<open>clientWidth\<close>.
\<close>

record img_element =
  naturalWidth :: nat
  clientWidth :: nat

text \<open>
  \<^verbatim>\<open>const selectionStyle = {
       left: Math.min(startPos.x, currentPos.x),
       top: Math.min(startPos.y, currentPos.y),
       width: Math.abs(currentPos.x - startPos.x),
       height: Math.abs(currentPos.y - startPos.y) };\<close>
  This is the rectangle drawn on the display. \<open>Math.min\<close> of two finite doubles is one
  of them; the two differences are rounded.
\<close>

record display_rect =
  sel_left :: real
  sel_top :: real
  sel_width :: jsnum
  sel_height :: jsnum

definition selectionStyle :: "rounding \<Rightarrow> crop_modal \<Rightarrow> display_rect" where
  "selectionStyle rnd m =
     \<lparr>sel_left = min (pos_x (startPos m)) (pos_x (currentPos m)),
      sel_top = min (pos_y (startPos m)) (pos_y (currentPos m)),
      sel_width = js_abs (js_sub rnd (pos_x (currentPos m)) (pos_x (startPos m))),
      sel_height = js_abs (js_sub rnd (pos_y (currentPos m)) (pos_y (startPos m)))\<rparr>"

text \<open>
  \<^verbatim>\<open>const scale = naturalWidth / clientWidth;
     const x = Math.min(startPos.x, currentPos.x) * scale;
     const y = Math.min(startPos.y, currentPos.y) * scale;
     const w = Math.abs(currentPos.x - startPos.x) * scale;
     const h = Math.abs(currentPos.y - startPos.y) * scale;\<close>
\<close>

record native_rect =
  nat_x :: jsnum
  nat_y :: jsnum
  nat_w :: jsnum
  nat_h :: jsnum

definition nativeRect :: "rounding \<Rightarrow> crop_modal \<Rightarrow> img_element \<Rightarrow> native_rect" where
  "nativeRect rnd m el =
     (let scale = js_div rnd (naturalWidth el) (clientWidth el) in
      \<lparr>nat_x = js_mult rnd (Fin (min (pos_x (startPos m)) (pos_x (currentPos m)))) scale,
       nat_y = js_mult rnd (Fin (min (pos_y (startPos m)) (pos_y (currentPos m)))) scale,
       nat_w = js_mult rnd (js_abs (js_sub rnd (pos_x (currentPos m)) (pos_x (startPos m)))) scale,
       nat_h = js_mult rnd (js_abs (js_sub rnd (pos_y (currentPos m)) (pos_y (startPos m)))) scale\<rparr>)"

text \<open>
  What the browser supplies to \<open>handleConfirm\<close>: the rounding of its arithmetic; the
  element behind \<open>imgRef\<close>, if mounted; whether the new canvas gave a 2d context; and the
  data URL that \<open>drawImage\<close> followed by \<open>toDataURL\<close> produces from the buffer of the image
  and the rectangle.
\<close>

record crop_env =
  rounding :: rounding
  imgRefCurrent :: "img_element option"
  canvasCtx :: bool
  drawToDataURL :: "string \<Rightarrow> native_rect \<Rightarrow> string"

text \<open>
  \<^verbatim>\<open>if (!imgRef.current) return;
     ...
     if (w < 50 || h < 50) {
       alert("Selection too small. Please select a larger area.");
       return;
     }
     const canvas = document.createElement('canvas'); ...
     const ctx = canvas.getContext('2d');
     if (ctx) {
       ctx.drawImage(imgRef.current, x, y, w, h, 0, 0, w, h);
       onConfirm(image.id, canvas.toDataURL('image/jpeg'));
     }\<close>
  The dialog does not hold the store: it reaches it through the callback \<open>onConfirm\<close>
  only; the prop \<open>image\<close> is the argument \<open>img\<close>. The \<open>alert\<close> is the error
  \<open>SelectionTooSmall\<close>.
\<close>

definition handleConfirm ::
  "crop_env \<Rightarrow> CapturedImage \<Rightarrow> (string \<Rightarrow> string \<Rightarrow> 's handler) \<Rightarrow> crop_modal \<Rightarrow> 's handler" where
  "handleConfirm env img onConfirm m st =
     (case imgRefCurrent env of
        None \<Rightarrow> (st, None)
      | Some el \<Rightarrow>
          let r = nativeRect (rounding env) m el in
          if js_less (nat_w r) 50 \<or> js_less (nat_h r) 50 then (st, Some SelectionTooSmall)
          else if canvasCtx env
            then onConfirm (id_img img) (drawToDataURL env (url img) r) st
            else (st, None))"

text \<open>
  In the words of the specification: a display rectangle multiplied on both axes and both
  dimensions by one factor.
\<close>

definition scaleRect :: "rounding \<Rightarrow> display_rect \<Rightarrow> jsnum \<Rightarrow> native_rect" where
  "scaleRect rnd d s =
     \<lparr>nat_x = js_mult rnd (Fin (sel_left d)) s, nat_y = js_mult rnd (Fin (sel_top d)) s,
      nat_w = js_mult rnd (sel_width d) s, nat_h = js_mult rnd (sel_height d) s\<rparr>"

subsection \<open>The rounding of IEEE 754 binary64\<close>

text \<open>
  Round to nearest, ties to even, as ECMAScript prescribes for every arithmetic result.
  A positive real \<open>a\<close> with \<open>2 ^ e \<le> a < 2 ^ (e + 1)\<close> lies between two neighbouring
  multiples of \<open>2 ^ (e - 52)\<close>, with \<open>e\<close> no smaller than -1022 (below that the doubles are
  subnormal and evenly spaced); the rounded value is the nearer multiple, the one with the
  even multiplier when both are equally near, and an infinity when it reaches \<open>2 ^ 1024\<close>.

  \<open>bitLength n\<close> is the number of binary digits of \<open>n\<close>.
\<close>

fun bitLength :: "nat \<Rightarrow> nat" where
  "bitLength n = (if n = 0 then 0 else Suc (bitLength (n div 2)))"

declare bitLength.simps [simp del]

definition pow2 :: "int \<Rightarrow> real" where
  "pow2 k = (if 0 \<le> k then 2 ^ nat k else 1 / 2 ^ nat (- k))"

text \<open>For \<open>0 < a\<close>, the \<open>e\<close> with \<open>2 ^ e \<le> a < 2 ^ (e + 1)\<close>.\<close>

definition binaryExponent :: "real \<Rightarrow> int" where
  "binaryExponent a =
     (if 1 \<le> a then int (bitLength (nat \<lfloor>a\<rfloor>)) - 1
      else - int (bitLength (nat (\<lceil>1 / a\<rceil> - 1))))"

definition roundHalfEven :: "real \<Rightarrow> int" where
  "roundHalfEven x =
     (let f = \<lfloor>x\<rfloor>; d = x - of_int f in
      if d < 1 / 2 then f else if 1 / 2 < d then f + 1 else if even f then f else f + 1)"

definition round64 :: rounding where
  "round64 x =
     (if x = 0 then Fin 0
      else
        let a = \<bar>x\<bar>;
            e = max (binaryExponent a) (- 1022);
            ulp = pow2 (e - 52);
            r = of_int (roundHalfEven (a / ulp)) * ulp
        in if pow2 1024 \<le> r then (if 0 < x then PosInf else NegInf)
           else Fin (if 0 < x then r else - r))"

text \<open>
  Example dialogs, in a browser with the rounding of doubles. An image 1280 pixels wide
  shown 640 pixels wide, with a drag from (200, 150) to (10, 10). An image 640 pixels wide
  shown 245 pixels wide, with a drag from (10, 20) to (108, 80), which is 98 wide: its
  native width is 255.99999999999997. An image 1000 pixels wide shown 970 pixels wide,
  with a drag from (0, 0) to (48.5, 100): its native width is 49.99999999999999. An image
  640 pixels wide shown 185 pixels wide, with a drag from (0, 0) to
  (14.453124999999998, 100): its native width is the double 50.
\<close>

definition elem640 :: img_element where
  "elem640 = \<lparr>naturalWidth = 1280, clientWidth = 640\<rparr>"

definition wideDrag :: crop_modal where
  "wideDrag = \<lparr>startPos = \<lparr>pos_x = 200, pos_y = 150\<rparr>, currentPos = \<lparr>pos_x = 10, pos_y = 10\<rparr>,
     isDrawing = False\<rparr>"

definition elem245 :: img_element where
  "elem245 = \<lparr>naturalWidth = 640, clientWidth = 245\<rparr>"

definition drag98 :: crop_modal where
  "drag98 = \<lparr>startPos = \<lparr>pos_x = 10, pos_y = 20\<rparr>, currentPos = \<lparr>pos_x = 108, pos_y = 80\<rparr>,
     isDrawing = False\<rparr>"

definition elem970 :: img_element where
  "elem970 = \<lparr>naturalWidth = 1000, clientWidth = 970\<rparr>"

definition dragBelow50 :: crop_modal where
  "dragBelow50 = \<lparr>startPos = \<lparr>pos_x = 0, pos_y = 0\<rparr>,
     currentPos = \<lparr>pos_x = 97 / 2, pos_y = 100\<rparr>, isDrawing = False\<rparr>"

definition elem185 :: img_element where
  "elem185 = \<lparr>naturalWidth = 640, clientWidth = 185\<rparr>"

definition dragAt50 :: crop_modal where
  "dragAt50 = \<lparr>startPos = \<lparr>pos_x = 0, pos_y = 0\<rparr>,
     currentPos = \<lparr>pos_x = 8136386045542399 / 562949953421312, pos_y = 100\<rparr>,
     isDrawing = False\<rparr>"

definition browser :: "img_element \<Rightarrow> crop_env" where
  "browser el = \<lparr>rounding = round64, imgRefCurrent = Some el, canvasCtx = True,
     drawToDataURL = (\<lambda>u r. u @ ''#cropped'')\<rparr>"

section \<open>The camera feed over the life of the component\<close>

text \<open>
  \<^verbatim>\<open>const stopCamera = () => {
       if (stream) { stream.getTracks().forEach(track => track.stop()); setStream(null); }
     };
     useEffect(() => {
       if (viewMode === 'camera') { startCamera(); } else { stopCamera(); }
       return () => stopCamera();
     }, [viewMode]);\<close>
  Every render of a function component makes its own \<open>stopCamera\<close>, which reads the
  \<open>stream\<close> of that render. The effect depends on \<open>viewMode\<close> alone: React runs it after
  the first render and after each render in which \<open>viewMode\<close> changed, and runs the cleanup
  it returned before the next run and when the component unmounts. So the cleanup calls the
  \<open>stopCamera\<close> of the render in which its effect ran.

  A mounted component is its cells, the \<open>stream\<close> that the render of the last effect saw
  (what the pending cleanup will read), the number of \<open>getUserMedia\<close> calls not yet
  settled, and, in the browser, the streams whose tracks have not been stopped: the
  camera is held as long as this list is not empty.
\<close>

record mounted_view =
  cells :: camera_view
  effectStream :: "media_stream option"
  pendingRequests :: nat
  liveStreams :: "media_stream list"
  isMounted :: bool

text \<open>\<open>stopCamera\<close>, with the \<open>stream\<close> it closed over as its first argument.\<close>

definition stopCamera :: "media_stream option \<Rightarrow> mounted_view \<Rightarrow> mounted_view" where
  "stopCamera s w =
     (case s of
        None \<Rightarrow> w
      | Some h \<Rightarrow> w\<lparr>cells := (cells w)\<lparr>stream := None\<rparr>,
                    liveStreams := removeAll h (liveStreams w)\<rparr>)"

text \<open>
  \<open>startCamera\<close> calls \<open>getUserMedia\<close> and awaits it: the call leaves a request pending,
  which the browser settles later, by \<open>Granted\<close> or \<open>Denied\<close> below.
\<close>

definition startCamera :: "mounted_view \<Rightarrow> mounted_view" where
  "startCamera w = w\<lparr>pendingRequests := pendingRequests w + 1\<rparr>"

text \<open>The body of the effect, in a render that saw the stream \<open>s\<close>; its cleanup will read \<open>s\<close>.\<close>

definition effectBody :: "media_stream option \<Rightarrow> mounted_view \<Rightarrow> mounted_view" where
  "effectBody s w =
     (if viewMode (cells w) = camera then startCamera w else stopCamera s w)\<lparr>effectStream := s\<rparr>"

text \<open>
  What happens to the component: it mounts; a pending \<open>getUserMedia\<close> is granted with a
  stream (\<^verbatim>\<open>setStream(mediaStream); setError(null)\<close>) or denied (\<^verbatim>\<open>setError(...)\<close>); the
  operator changes the view mode, or presses "Retry Camera" (\<open>startCamera\<close>); the owner
  unmounts it (\<open>onBack\<close> and \<open>onAnalysisComplete\<close> make \<open>App\<close> show another view). Setting a
  cell of a component that is no longer mounted does nothing.
\<close>

datatype lifecycle_event =
  Mount | Granted media_stream | Denied | SetViewMode view_mode | Retry | Unmount

fun react :: "lifecycle_event \<Rightarrow> mounted_view \<Rightarrow> mounted_view" where
  "react Mount w =
     (if isMounted w then w
      else effectBody (stream initial) (w\<lparr>cells := initial, isMounted := True\<rparr>))"
| "react (Granted h) w =
     (if pendingRequests w = 0 then w
      else w\<lparr>pendingRequests := pendingRequests w - 1,
             liveStreams := h # liveStreams w,
             cells := (if isMounted w then (cells w)\<lparr>stream := Some h, error := None\<rparr>
                       else cells w)\<rparr>)"
| "react Denied w =
     (if pendingRequests w = 0 then w
      else w\<lparr>pendingRequests := pendingRequests w - 1,
             cells := (if isMounted w
                       then (cells w)\<lparr>error :=
                              Some ''Unable to access camera. Please check permissions.''\<rparr>
                       else cells w)\<rparr>)"
| "react (SetViewMode m) w =
     (if \<not> isMounted w \<or> m = viewMode (cells w) then w
      else
        let rendered = w\<lparr>cells := (cells w)\<lparr>viewMode := m\<rparr>\<rparr>;
            s = stream (cells rendered)
        in effectBody s (stopCamera (effectStream rendered) rendered))"
| "react Retry w = (if isMounted w then startCamera w else w)"
| "react Unmount w =
     (if isMounted w then (stopCamera (effectStream w) w)\<lparr>isMounted := False\<rparr> else w)"

fun reactAll :: "lifecycle_event list \<Rightarrow> mounted_view \<Rightarrow> mounted_view" where
  "reactAll [] w = w"
| "reactAll (ev # evs) w = reactAll evs (react ev w)"

definition unmounted :: mounted_view where
  "unmounted = \<lparr>cells = initial, effectStream = None, pendingRequests = 0, liveStreams = [],
     isMounted = False\<rparr>"

section \<open>Selection\<close>

lemma toggle_nth:
  "k < length (capturedImages st) \<Longrightarrow>
   capturedImages (fst (toggleImageSelection i st)) ! k =
     (if id_img (capturedImages st ! k) = i
      then (capturedImages st ! k)\<lparr>selected := \<not> selected (capturedImages st ! k)\<rparr>
      else capturedImages st ! k)"
  by (simp add: toggleImageSelection_def)

lemma map_absent_id:
  "i \<notin> id_img ` set xs \<Longrightarrow> map (\<lambda>img. if id_img img = i then f img else img) xs = xs"
  by (induction xs) auto

text \<open>
  C8. For every state of the store and every id, toggling the selection of that id twice
  gives back the state it started from; so the \<open>selected\<close> flag of the entry with that id,
  when there is one, has its prior value again.
\<close>

theorem toggleImageSelection_twice:
  "andThen (toggleImageSelection i) (toggleImageSelection i) st = st"
  by (simp add: andThen_def toggleImageSelection_def comp_def map_idI)

text \<open>
  C10. For every state and every id, \<open>toggleImageSelection\<close> and \<open>selectAll\<close> keep the
  number of entries, their order, and the id and the buffer of every entry, and touch no
  other cell of the state: they change \<open>selected\<close> flags only.
\<close>

theorem selection_changes_flags_only:
  "sameButFlags (fst (toggleImageSelection i st)) st \<and> sameButFlags (fst (selectAll b st)) st"
  by (simp add: sameButFlags_def toggleImageSelection_def selectAll_def comp_def
      if_distrib [of id_img] if_distrib [of url] cong: if_cong)

text \<open>
  C6, as the claim states it, fails: the store \<open>storeAB\<close> holds no entry with the id
  \<open>''nope''\<close>, and toggling that id signals no \<open>NotFound\<close>; it signals nothing and returns
  the store as it was.
\<close>

theorem toggleImageSelection_absent_counterexample:
  "''nope'' \<notin> ids storeAB \<and>
   snd (toggleImageSelection ''nope'' storeAB) \<noteq> Some NotFound \<and>
   toggleImageSelection ''nope'' storeAB = (storeAB, None)"
  by (simp add: ids_def storeAB_def initial_def imgA_def imgB_def toggleImageSelection_def)

text \<open>
  C6, amended. \<open>toggleImageSelection i\<close> flips the \<open>selected\<close> flag of every entry whose id
  is \<open>i\<close> and leaves every other entry as it is; it never signals an error, and when no
  entry has the id \<open>i\<close> the state is unchanged.
\<close>

theorem toggleImageSelection_flips:
  "snd (toggleImageSelection i st) = None \<and>
   length (capturedImages (fst (toggleImageSelection i st))) = length (capturedImages st) \<and>
   (\<forall>k < length (capturedImages st).
      capturedImages (fst (toggleImageSelection i st)) ! k =
        (if id_img (capturedImages st ! k) = i
         then (capturedImages st ! k)\<lparr>selected := \<not> selected (capturedImages st ! k)\<rparr>
         else capturedImages st ! k)) \<and>
   (i \<notin> ids st \<longrightarrow> toggleImageSelection i st = (st, None))"
proof (intro conjI allI impI)
  show "snd (toggleImageSelection i st) = None"
    by (simp add: toggleImageSelection_def)
  show "length (capturedImages (fst (toggleImageSelection i st))) = length (capturedImages st)"
    by (simp add: toggleImageSelection_def)
next
  fix k assume "k < length (capturedImages st)"
  then show "capturedImages (fst (toggleImageSelection i st)) ! k =
        (if id_img (capturedImages st ! k) = i
         then (capturedImages st ! k)\<lparr>selected := \<not> selected (capturedImages st ! k)\<rparr>
         else capturedImages st ! k)"
    by (rule toggle_nth)
next
  assume "i \<notin> ids st"
  then show "toggleImageSelection i st = (st, None)"
    by (simp add: ids_def toggleImageSelection_def map_absent_id)
qed

theorem toggleImageSelection_flips_witness:
  "toggleImageSelection ''nope'' storeAB = (storeAB, None) \<and>
   capturedImages (fst (toggleImageSelection ''17000000000050.75'' storeAB)) ! 1 =
     imgB\<lparr>selected := True\<rparr>"
proof -
  have absent: "''nope'' \<notin> ids storeAB"
    by (simp add: ids_def storeAB_def initial_def imgA_def imgB_def)
  have len: "(1::nat) < length (capturedImages storeAB)"
    by (simp add: storeAB_def)
  from toggleImageSelection_flips [of "''nope''" storeAB] absent
  have "toggleImageSelection ''nope'' storeAB = (storeAB, None)"
    by blast
  moreover from toggleImageSelection_flips [of "''17000000000050.75''" storeAB] len
  have "capturedImages (fst (toggleImageSelection ''17000000000050.75'' storeAB)) ! 1 =
        (if id_img (capturedImages storeAB ! 1) = ''17000000000050.75''
         then (capturedImages storeAB ! 1)\<lparr>selected := \<not> selected (capturedImages storeAB ! 1)\<rparr>
         else capturedImages storeAB ! 1)"
    by blast
  ultimately show ?thesis
    by (simp add: storeAB_def imgB_def)
qed

section \<open>Replacing the buffer of a cropped image\<close>

lemma cropConfirm_nth:
  "k < length (capturedImages st) \<Longrightarrow>
   capturedImages (fst (handleCropConfirm i u st)) ! k =
     (if id_img (capturedImages st ! k) = i
      then (capturedImages st ! k)\<lparr>url := u\<rparr>
      else capturedImages st ! k)"
  by (simp add: handleCropConfirm_def)

text \<open>
  C7, as the claim states it, fails in its last part: the store \<open>storeAB\<close> holds no entry
  with the id \<open>''nope''\<close>, and \<open>handleCropConfirm\<close> on that id does not fail with
  \<open>NotFound\<close>; it signals nothing and returns the state as it was.
\<close>

theorem handleCropConfirm_absent_counterexample:
  "''nope'' \<notin> ids storeAB \<and>
   snd (handleCropConfirm ''nope'' ''data:c'' storeAB) \<noteq> Some NotFound \<and>
   handleCropConfirm ''nope'' ''data:c'' storeAB = (storeAB, None)"
  by (simp add: ids_def storeAB_def initial_def imgA_def imgB_def handleCropConfirm_def)

text \<open>
  C7, amended. \<open>handleCropConfirm i u\<close> replaces the buffer of every entry whose id is \<open>i\<close>
  by \<open>u\<close>, keeping the id and the \<open>selected\<close> flag of that entry, and leaves every other
  entry as it is, in the same order; it never signals an error, and when no entry has the
  id \<open>i\<close> the entries of the store are unchanged.
\<close>

theorem handleCropConfirm_frame:
  "snd (handleCropConfirm i u st) = None \<and>
   length (capturedImages (fst (handleCropConfirm i u st))) = length (capturedImages st) \<and>
   (\<forall>k < length (capturedImages st).
      capturedImages (fst (handleCropConfirm i u st)) ! k =
        (if id_img (capturedImages st ! k) = i
         then (capturedImages st ! k)\<lparr>url := u\<rparr>
         else capturedImages st ! k)) \<and>
   (i \<notin> ids st \<longrightarrow> capturedImages (fst (handleCropConfirm i u st)) = capturedImages st)"
proof (intro conjI allI impI)
  show "snd (handleCropConfirm i u st) = None"
    by (simp add: handleCropConfirm_def)
  show "length (capturedImages (fst (handleCropConfirm i u st))) = length (capturedImages st)"
    by (simp add: handleCropConfirm_def)
next
  fix k assume "k < length (capturedImages st)"
  then show "capturedImages (fst (handleCropConfirm i u st)) ! k =
        (if id_img (capturedImages st ! k) = i
         then (capturedImages st ! k)\<lparr>url := u\<rparr>
         else capturedImages st ! k)"
    by (rule cropConfirm_nth)
next
  assume "i \<notin> ids st"
  then show "capturedImages (fst (handleCropConfirm i u st)) = capturedImages st"
    by (simp add: ids_def handleCropConfirm_def map_absent_id)
qed

theorem handleCropConfirm_frame_witness:
  "capturedImages (fst (handleCropConfirm ''nope'' ''data:c'' storeAB)) = [imgA, imgB] \<and>
   capturedImages (fst (handleCropConfirm ''17000000000050.75'' ''data:c'' storeAB)) ! 1 =
     imgB\<lparr>url := ''data:c''\<rparr> \<and>
   capturedImages (fst (handleCropConfirm ''17000000000050.75'' ''data:c'' storeAB)) ! 0 = imgA"
proof -
  have absent: "''nope'' \<notin> ids storeAB"
    by (simp add: ids_def storeAB_def initial_def imgA_def imgB_def)
  have len: "(0::nat) < length (capturedImages storeAB)" "(1::nat) < length (capturedImages storeAB)"
    by (simp_all add: storeAB_def)
  from handleCropConfirm_frame [of "''nope''" "''data:c''" storeAB] absent
  have "capturedImages (fst (handleCropConfirm ''nope'' ''data:c'' storeAB)) = capturedImages storeAB"
    by blast
  moreover from handleCropConfirm_frame [of "''17000000000050.75''" "''data:c''" storeAB] len
  have "capturedImages (fst (handleCropConfirm ''17000000000050.75'' ''data:c'' storeAB)) ! 1 =
        (if id_img (capturedImages storeAB ! 1) = ''17000000000050.75''
         then (capturedImages storeAB ! 1)\<lparr>url := ''data:c''\<rparr>
         else capturedImages storeAB ! 1)"
    and "capturedImages (fst (handleCropConfirm ''17000000000050.75'' ''data:c'' storeAB)) ! 0 =
        (if id_img (capturedImages storeAB ! 0) = ''17000000000050.75''
         then (capturedImages storeAB ! 0)\<lparr>url := ''data:c''\<rparr>
         else capturedImages storeAB ! 0)"
    by blast+
  ultimately show ?thesis
    by (simp add: storeAB_def imgA_def imgB_def)
qed

section \<open>Captures and deletions\<close>

lemma run_entries:
  "capturedImages (run ops st) =
     filter (\<lambda>img. id_img img \<notin> removedIds ops) (capturedImages st) @ survivors ops"
proof (induction ops arbitrary: st)
  case Nil
  show ?case by simp
next
  case (Cons opn ops)
  show ?case
  proof (cases opn)
    case (Capture e)
    then show ?thesis
      by (simp add: Cons.IH capturePhoto_def)
  next
    case (Delete i confirmed)
    have "filter (\<lambda>img. id_img img \<notin> removedIds ops) (filter (\<lambda>img. id_img img \<noteq> i) xs) =
          filter (\<lambda>img. id_img img \<notin> insert i (removedIds ops)) xs"
      for xs :: "CapturedImage list"
      by (induction xs) auto
    with Delete show ?thesis
      by (simp add: Cons.IH deleteImage_def)
  qed
qed

lemma step_distinct:
  assumes "distinct (map id_img (capturedImages st))"
    and "case added opn of None \<Rightarrow> True | Some img \<Rightarrow> id_img img \<notin> ids st"
  shows "distinct (map id_img (capturedImages (step opn st)))"
proof (cases opn)
  case (Capture e)
  with assms show ?thesis
    by (auto simp: capturePhoto_def ids_def)
next
  case (Delete i confirmed)
  with assms(1) show ?thesis
    by (simp add: deleteImage_def distinct_map_filter)
qed

lemma run_distinct:
  "distinct (map id_img (capturedImages st)) \<Longrightarrow> freshIds ops st \<Longrightarrow>
   distinct (map id_img (capturedImages (run ops st)))"
proof (induction ops arbitrary: st)
  case Nil
  then show ?case by simp
next
  case (Cons opn ops)
  from Cons.prems have "distinct (map id_img (capturedImages (step opn st)))"
    by (intro step_distinct) simp_all
  moreover from Cons.prems have "freshIds ops (step opn st)"
    by simp
  ultimately show ?case
    by (simp add: Cons.IH)
qed

text \<open>
  C5, as the claim states it, fails in its first part: two captures for which \<open>Date.now()\<close>
  and \<open>Math.random()\<close> gave the same values leave two entries with the same id in the
  store.
\<close>

theorem capture_twice_same_id_counterexample:
  "\<not> distinct (map id_img (capturedImages (run [Capture shot1, Capture shot1again] initial)))"
  by (simp add: capturePhoto_def newImage_def shot1_def shot1again_def initial_def)

text \<open>
  C5, amended. For every sequence of captures and deletions starting from the empty store
  in which every capture draws an id that no entry of the store holds at that moment, the
  store never holds two entries with the same id. For every sequence, with or without that
  condition, the store holds exactly the added entries that no later deletion removed, in
  the order of their insertion.
\<close>

theorem store_after_run:
  "capturedImages (run ops initial) = survivors ops \<and>
   (freshIds ops initial \<longrightarrow> distinct (map id_img (capturedImages (run ops initial))))"
proof (intro conjI impI)
  show "capturedImages (run ops initial) = survivors ops"
    by (simp add: run_entries initial_def)
next
  assume "freshIds ops initial"
  moreover have "distinct (map id_img (capturedImages initial))"
    by (simp add: initial_def)
  ultimately show "distinct (map id_img (capturedImages (run ops initial)))"
    by (intro run_distinct)
qed

theorem store_after_run_witness:
  "capturedImages
     (run [Capture shot1, Capture shot2, Delete ''17000000000000.25'' True, Capture shot1again]
        initial) = [newImage shot2, newImage shot1again] \<and>
   distinct (map id_img (capturedImages
     (run [Capture shot1, Capture shot2, Delete ''17000000000000.25'' True, Capture shot1again]
        initial)))"
proof -
  let ?ops = "[Capture shot1, Capture shot2, Delete ''17000000000000.25'' True, Capture shot1again]"
  have fresh: "freshIds ?ops initial"
    by (simp add: ids_def capturePhoto_def deleteImage_def newImage_def shot1_def shot2_def
        shot1again_def initial_def)
  have surv: "survivors ?ops = [newImage shot2, newImage shot1again]"
    by (simp add: newImage_def shot1_def shot2_def shot1again_def)
  from store_after_run [of ?ops] fresh
  have entries: "capturedImages (run ?ops initial) = survivors ?ops"
    and dist: "distinct (map id_img (capturedImages (run ?ops initial)))"
    by blast+
  from entries surv have "capturedImages (run ?ops initial) = [newImage shot2, newImage shot1again]"
    by (rule trans)
  with dist show ?thesis
    by (rule conjI [rotated])
qed

section \<open>Dispatching a batch\<close>

lemma promiseAll_map_Inr: "promiseAll (map Inr rs) = Some rs"
  by (induction rs) simp_all

lemma promiseAll_Some: "promiseAll ps = Some rs \<longleftrightarrow> ps = map Inr rs"
proof
  show "promiseAll ps = Some rs \<Longrightarrow> ps = map Inr rs"
    by (induction ps arbitrary: rs rule: promiseAll.induct) (auto split: option.splits)
qed (simp add: promiseAll_map_Inr)

lemma promiseAll_None_set: "promiseAll ps = None \<longleftrightarrow> (\<exists>p \<in> set ps. isl p)"
  by (induction ps rule: promiseAll.induct) (auto split: option.splits)

lemma promiseAll_None: "promiseAll ps = None \<longleftrightarrow> (\<exists>k < length ps. isl (ps ! k))"
  unfolding promiseAll_None_set by (metis in_set_conv_nth)

lemma promises_nth:
  "k < length imgs \<Longrightarrow>
   map (\<lambda>(k, img). analyze k (url img)) (enumerate 0 imgs) ! k = analyze k (url (imgs ! k))"
  by (simp add: nth_enumerate_eq)

text \<open>
  C4. When the images to process are none, \<open>handleBatchAnalyze\<close> returns at once: the state
  is the one it was called in, \<open>analyzeImageWithPi\<close> is not called, and
  \<open>onAnalysisComplete\<close> is handed nothing, so that the report holds no outcome.
\<close>

theorem handleBatchAnalyze_empty:
  "imagesToProcess analyzeAll st = [] \<Longrightarrow>
   handleBatchAnalyze analyze analyzeAll st = (st, \<lparr>invoked = [], completed = None\<rparr>)"
  by (simp add: handleBatchAnalyze_def)

theorem handleBatchAnalyze_empty_witness:
  "imagesToProcess False (fst (selectAll False storeAB)) = [] \<and>
   handleBatchAnalyze analyzeOk False (fst (selectAll False storeAB)) =
     (fst (selectAll False storeAB), \<lparr>invoked = [], completed = None\<rparr>)"
proof -
  have none: "imagesToProcess False (fst (selectAll False storeAB)) = []"
    by (simp add: imagesToProcess_def selectAll_def storeAB_def)
  from none handleBatchAnalyze_empty [OF none, of analyzeOk] show ?thesis
    by (rule conjI)
qed

text \<open>
  C1, as the claim states it, fails: with the two images of \<open>storeAB\<close>, where the analysis
  of the first succeeds and that of the second fails, no outcome is reported for either
  image (\<open>onAnalysisComplete\<close> is not called), and the batch-level error is set.
\<close>

theorem handleBatchAnalyze_partial_failure_counterexample:
  "imagesToProcess True storeAB = [imgA, imgB] \<and>
   analyzeFailsSecond 0 (url imgA) = Inr ''E. coli in data:a'' \<and>
   analyzeFailsSecond 1 (url imgB) = Inl ''timeout'' \<and>
   completed (snd (handleBatchAnalyze analyzeFailsSecond True storeAB)) = None \<and>
   error (fst (handleBatchAnalyze analyzeFailsSecond True storeAB)) =
     Some ''Connection to Raspberry Pi failed during batch analysis.''"
  by (simp add: handleBatchAnalyze_def imagesToProcess_def storeAB_def initial_def imgA_def
      imgB_def analyzeFailsSecond_def)

text \<open>
  C1, amended. For every batch of one or more images, \<open>handleBatchAnalyze\<close> calls the
  analysis once per image, in the order of the batch, and leaves the store as it was. When
  every analysis succeeds, it reports one result per image, the \<open>k\<close>-th result being that of
  the \<open>k\<close>-th image, and sets no error. When the analysis of some image fails, the batch
  fails as a whole: nothing is reported for any image, the successful ones included, and
  the batch-level error is set.
\<close>

theorem handleBatchAnalyze_all_or_nothing:
  assumes "imagesToProcess analyzeAll st = imgs" and "imgs \<noteq> []"
  shows "invoked (snd (handleBatchAnalyze analyze analyzeAll st)) = map url imgs \<and>
    capturedImages (fst (handleBatchAnalyze analyze analyzeAll st)) = capturedImages st \<and>
    ((\<forall>k < length imgs. \<not> isl (analyze k (url (imgs ! k)))) \<longrightarrow>
       (\<exists>rs. completed (snd (handleBatchAnalyze analyze analyzeAll st)) = Some rs \<and>
          length rs = length imgs \<and>
          (\<forall>k < length imgs. analyze k (url (imgs ! k)) = Inr (rs ! k))) \<and>
       error (fst (handleBatchAnalyze analyze analyzeAll st)) = error st) \<and>
    ((\<exists>k < length imgs. isl (analyze k (url (imgs ! k)))) \<longrightarrow>
       completed (snd (handleBatchAnalyze analyze analyzeAll st)) = None \<and>
       error (fst (handleBatchAnalyze analyze analyzeAll st)) =
         Some ''Connection to Raspberry Pi failed during batch analysis.'')"
proof -
  define ps where "ps = map (\<lambda>(k, img). analyze k (url img)) (enumerate 0 imgs)"
  have len: "length ps = length imgs"
    by (simp add: ps_def)
  have nth: "ps ! k = analyze k (url (imgs ! k))" if "k < length imgs" for k
    using that unfolding ps_def by (rule promises_nth)
  have fails: "promiseAll ps = None \<longleftrightarrow> (\<exists>k < length imgs. isl (analyze k (url (imgs ! k))))"
    by (auto simp: promiseAll_None len nth)
  have run: "handleBatchAnalyze analyze analyzeAll st =
    (case promiseAll ps of
       Some results \<Rightarrow>
         (st\<lparr>isAnalyzing := True\<rparr>, \<lparr>invoked = map url imgs, completed = Some results\<rparr>)
     | None \<Rightarrow>
         (st\<lparr>isAnalyzing := True,
             error := Some ''Connection to Raspberry Pi failed during batch analysis.'',
             isAnalyzing := False\<rparr>,
          \<lparr>invoked = map url imgs, completed = None\<rparr>))"
    using assms by (simp add: handleBatchAnalyze_def ps_def Let_def)
  show ?thesis
  proof (cases "promiseAll ps")
    case None
    with fails run show ?thesis
      by auto
  next
    case (Some rs)
    then have ps: "ps = map Inr rs"
      by (simp add: promiseAll_Some)
    then have "length rs = length imgs"
      using len by simp
    moreover have "analyze k (url (imgs ! k)) = Inr (rs ! k)" if "k < length imgs" for k
      using that nth [OF that] ps len by simp
    moreover have "\<not> (\<exists>k < length imgs. isl (analyze k (url (imgs ! k))))"
      using fails Some by simp
    ultimately show ?thesis
      using run Some by auto
  qed
qed

theorem handleBatchAnalyze_all_or_nothing_witness:
  "invoked (snd (handleBatchAnalyze analyzeOk True storeAB)) = [''data:a'', ''data:b''] \<and>
   error (fst (handleBatchAnalyze analyzeOk True storeAB)) = None \<and>
   completed (snd (handleBatchAnalyze analyzeOk True storeAB)) =
     Some [''E. coli in data:a'', ''E. coli in data:b''] \<and>
   completed (snd (handleBatchAnalyze analyzeFailsSecond True storeAB)) = None"
proof -
  have imgs: "imagesToProcess True storeAB = [imgA, imgB]" "[imgA, imgB] \<noteq> []"
    by (simp_all add: imagesToProcess_def storeAB_def)
  have ok: "\<forall>k < length [imgA, imgB]. \<not> isl (analyzeOk k (url ([imgA, imgB] ! k)))"
    by (simp add: analyzeOk_def)
  have bad: "\<exists>k < length [imgA, imgB]. isl (analyzeFailsSecond k (url ([imgA, imgB] ! k)))"
    by (rule exI [of _ 1]) (simp add: analyzeFailsSecond_def)
  from handleBatchAnalyze_all_or_nothing [OF imgs, of analyzeOk] ok
  have "invoked (snd (handleBatchAnalyze analyzeOk True storeAB)) = map url [imgA, imgB]"
    and "error (fst (handleBatchAnalyze analyzeOk True storeAB)) = error storeAB"
    by blast+
  then have "invoked (snd (handleBatchAnalyze analyzeOk True storeAB)) = [''data:a'', ''data:b'']"
    and "error (fst (handleBatchAnalyze analyzeOk True storeAB)) = None"
    by (simp_all add: imgA_def imgB_def storeAB_def initial_def)
  moreover have "completed (snd (handleBatchAnalyze analyzeOk True storeAB)) =
     Some [''E. coli in data:a'', ''E. coli in data:b'']"
    by (simp add: handleBatchAnalyze_def imagesToProcess_def storeAB_def imgA_def imgB_def
        analyzeOk_def)
  moreover from handleBatchAnalyze_all_or_nothing [OF imgs, of analyzeFailsSecond] bad
  have "completed (snd (handleBatchAnalyze analyzeFailsSecond True storeAB)) = None"
    by blast
  ultimately show ?thesis
    by blast
qed

section \<open>Cropping\<close>

lemma bitLength_numeral:
  "bitLength (numeral (Num.Bit0 n)) = Suc (bitLength (numeral n))"
  "bitLength (numeral (Num.Bit1 n)) = Suc (bitLength (numeral n))"
  "bitLength 1 = 1" "bitLength (Suc 0) = 1" "bitLength 0 = 0"
  by (subst bitLength.simps, simp)+

lemmas round64_eval =
  round64_def binaryExponent_def roundHalfEven_def pow2_def bitLength_numeral Let_def

text \<open>
  C2. For every crop request, the native rectangle is the display rectangle (left = the
  smaller of the two x, top = the smaller of the two y, width and height the absolute
  differences) multiplied on both axes and both dimensions by the one factor
  \<open>naturalWidth / clientWidth\<close>, in the arithmetic of doubles, whatever its rounding is.
\<close>

theorem nativeRect_scales_selection:
  "nativeRect rnd m el =
     scaleRect rnd (selectionStyle rnd m) (js_div rnd (naturalWidth el) (clientWidth el))"
  by (simp add: nativeRect_def scaleRect_def selectionStyle_def Let_def)

theorem nativeRect_scales_selection_witness:
  "nativeRect round64 wideDrag elem640 =
     \<lparr>nat_x = Fin 20, nat_y = Fin 20, nat_w = Fin 380, nat_h = Fin 280\<rparr> \<and>
   nativeRect round64 drag98 elem245 =
     \<lparr>nat_x = Fin (7352815718155911 / 281474976710656),
      nat_y = Fin (7352815718155911 / 140737488355328),
      nat_w = Fin (9007199254740991 / 35184372088832),
      nat_h = Fin (5514611788616933 / 35184372088832)\<rparr>"
proof -
  have "scaleRect round64 (selectionStyle round64 wideDrag)
          (js_div round64 (naturalWidth elem640) (clientWidth elem640)) =
        \<lparr>nat_x = Fin 20, nat_y = Fin 20, nat_w = Fin 380, nat_h = Fin 280\<rparr>"
    by (simp add: scaleRect_def selectionStyle_def js_div_def js_sub_def wideDrag_def
        elem640_def round64_eval)
  moreover have "scaleRect round64 (selectionStyle round64 drag98)
          (js_div round64 (naturalWidth elem245) (clientWidth elem245)) =
        \<lparr>nat_x = Fin (7352815718155911 / 281474976710656),
         nat_y = Fin (7352815718155911 / 140737488355328),
         nat_w = Fin (9007199254740991 / 35184372088832),
         nat_h = Fin (5514611788616933 / 35184372088832)\<rparr>"
    by (simp add: scaleRect_def selectionStyle_def js_div_def js_sub_def drag98_def
        elem245_def round64_eval)
  ultimately show ?thesis
    by (simp only: nativeRect_scales_selection)
qed

text \<open>
  C3. For every crop request on a mounted image whose native width or native height is
  below 50, \<open>handleConfirm\<close> signals \<open>SelectionTooSmall\<close> and returns the state it was given,
  whatever the callback \<open>onConfirm\<close> is: the callback is not run. With the callback of
  \<open>CameraView\<close>, which is \<open>handleCropConfirm\<close>, no buffer of the store is replaced.
\<close>

theorem handleConfirm_too_small:
  assumes "imgRefCurrent env = Some el"
    and "js_less (nat_w (nativeRect (rounding env) m el)) 50 \<or>
         js_less (nat_h (nativeRect (rounding env) m el)) 50"
  shows "handleConfirm env img onConfirm m st = (st, Some SelectionTooSmall) \<and>
    capturedImages (fst (handleConfirm env img handleCropConfirm m cv)) = capturedImages cv"
  using assms by (simp add: handleConfirm_def Let_def)

theorem handleConfirm_too_small_witness:
  "nat_w (nativeRect round64 dragBelow50 elem970) =
     Fin (7036874417766399 / 140737488355328) \<and>
   handleConfirm (browser elem970) imgA handleCropConfirm dragBelow50 storeAB =
     (storeAB, Some SelectionTooSmall)"
proof -
  have w: "nat_w (nativeRect round64 dragBelow50 elem970) =
      Fin (7036874417766399 / 140737488355328)"
    by (simp add: nativeRect_def js_div_def js_sub_def dragBelow50_def elem970_def round64_eval)
  have el: "imgRefCurrent (browser elem970) = Some elem970"
    and rnd: "rounding (browser elem970) = round64"
    by (simp_all add: browser_def)
  have small: "js_less (nat_w (nativeRect (rounding (browser elem970)) dragBelow50 elem970)) 50 \<or>
      js_less (nat_h (nativeRect (rounding (browser elem970)) dragBelow50 elem970)) 50"
    by (simp add: rnd w)
  from handleConfirm_too_small [OF el small, of imgA handleCropConfirm storeAB storeAB] w
  show ?thesis
    by blast
qed

text \<open>
  Where the native width is the double 50 and the native height is above it, the guard
  lets the request through and the buffer of the image is replaced.
\<close>

lemma handleConfirm_at_fifty:
  "nat_w (nativeRect round64 dragAt50 elem185) = Fin 50 \<and>
   handleConfirm (browser elem185) imgA handleCropConfirm dragAt50 storeAB =
     handleCropConfirm ''17000000000000.25'' ''data:a#cropped'' storeAB"
proof -
  have r: "nativeRect round64 dragAt50 elem185 =
      \<lparr>nat_x = Fin 0, nat_y = Fin 0, nat_w = Fin 50,
       nat_h = Fin (3042972721196281 / 8796093022208)\<rparr>"
    by (simp add: nativeRect_def js_div_def js_sub_def dragAt50_def elem185_def round64_eval)
  show ?thesis
    by (simp add: handleConfirm_def browser_def r imgA_def)
qed

section \<open>Releasing the camera feed\<close>

text \<open>
  C9 does not hold on the path of owner teardown. The component mounts in camera mode, the
  camera is granted as stream 1, and the owner unmounts the component: the cleanup runs the
  \<open>stopCamera\<close> of the first render, which saw no stream, so the tracks of stream 1 are not
  stopped and the feed stays held. On the path of an explicit stop (switching to review)
  the same stream is released, and unmounting after that leaves nothing held.
\<close>

theorem unmount_leaves_feed_held:
  "liveStreams (reactAll [Mount, Granted 1, Unmount] unmounted) = [1] \<and>
   isMounted (reactAll [Mount, Granted 1, Unmount] unmounted) = False \<and>
   liveStreams (reactAll [Mount, Granted 1, SetViewMode review] unmounted) = [] \<and>
   liveStreams (reactAll [Mount, Granted 1, SetViewMode review, Unmount] unmounted) = []"
  by (simp add: unmounted_def initial_def effectBody_def startCamera_def stopCamera_def Let_def)

end
